theory Spec2Isabelle
  imports Complex_Main
begin

section \<open>Numbers and the helpers of the graphics library\<close>

text \<open>
  JavaScript numbers are modelled as exact reals: every statement below is about the
  arithmetic the code writes down, with no rounding. \<open>Math.abs\<close>, \<open>Math.min\<close> and
  \<open>Math.sign\<close> are \<open>abs\<close>, \<open>min\<close> and \<open>sgn\<close>; \<open>Math.pow\<close> is only ever called
  with a positive base (0.85 or 0.88) and is \<open>powr\<close>.

  \<open>THREE.MathUtils.lerp(x, y, t)\<close> is \<open>(1 - t) * x + t * y\<close>, and
  \<open>Vector2.lerp(v, alpha)\<close> adds \<open>(v - this) * alpha\<close> to each component.
\<close>

definition lerp :: "real \<Rightarrow> real \<Rightarrow> real \<Rightarrow> real" where
  "lerp x y t = (1 - t) * x + t * y"

type_synonym Vector2 = "real \<times> real"

definition vlerp :: "Vector2 \<Rightarrow> Vector2 \<Rightarrow> real \<Rightarrow> Vector2" where
  "vlerp c v alpha =
     (fst c + (fst v - fst c) * alpha, snd c + (snd v - snd c) * alpha)"

text \<open>
  \<open>isMobile()\<close>: the user agent matches the list of mobile browsers, or the window is at
  most 768 pixels wide. The first argument is the result of the regular expression test.
\<close>

definition isMobile :: "bool \<Rightarrow> real \<Rightarrow> bool" where
  "isMobile uaMatches innerWidth \<longleftrightarrow> uaMatches \<or> innerWidth \<le> 768"

section \<open>The animation state of one \<open>ImageWithEffect\<close>\<close>

text \<open>
  The refs of the component, the three shader uniforms it writes, and the pending
  timers of the window: \<open>timers\<close> maps a timer handle to its delay in milliseconds and
  its callback; \<open>nextTimer\<close> is the handle the next \<open>setTimeout\<close> returns.
  \<open>material\<close> says whether \<open>materialRef.current\<close> is set.
\<close>

datatype callback = Debounce | Watchdog

record scroll_state =
  material :: bool
  isScrolling :: bool
  targetAberrationStrength :: real
  currentAberrationStrength :: real
  targetDirection :: Vector2
  currentDirection :: Vector2
  lastScrollY :: real
  scrollTimer :: "nat option"
  forceReset :: bool
  uAberrationStrength :: real
  uAberrationDirection :: Vector2
  uOffset :: Vector2
  timers :: "nat \<rightharpoonup> nat \<times> callback"
  nextTimer :: nat

definition initial :: "real \<Rightarrow> scroll_state" where
  "initial scrollY =
     \<lparr> material = False, isScrolling = False,
       targetAberrationStrength = 0, currentAberrationStrength = 0,
       targetDirection = (0, 0), currentDirection = (0, 0),
       lastScrollY = scrollY, scrollTimer = None, forceReset = False,
       uAberrationStrength = 0, uAberrationDirection = (0, 0), uOffset = (0, 0),
       timers = Map.empty, nextTimer = 1 \<rparr>"

definition setTimeout :: "callback \<Rightarrow> nat \<Rightarrow> scroll_state \<Rightarrow> nat \<times> scroll_state" where
  "setTimeout cb ms s =
     (nextTimer s,
      s\<lparr>timers := (timers s)(nextTimer s \<mapsto> (ms, cb)), nextTimer := Suc (nextTimer s)\<rparr>)"

definition clearTimeout :: "nat \<Rightarrow> scroll_state \<Rightarrow> scroll_state" where
  "clearTimeout h s = s\<lparr>timers := (timers s)(h := None)\<rparr>"

subsection \<open>First variant (time-scaled damping)\<close>

text \<open>
  The body of the animation-frame callback of \<open>handleScroll\<close>; \<open>mobile\<close> is the value of
  \<open>isMobile()\<close> and \<open>currentScrollY\<close> the value of \<open>window.scrollY\<close> when it runs.
\<close>

definition handleScroll :: "bool \<Rightarrow> real \<Rightarrow> real \<Rightarrow> scroll_state \<Rightarrow> scroll_state" where
  "handleScroll mobile maxAberration currentScrollY s =
     (let delta = currentScrollY - lastScrollY s;
          s1 = s\<lparr>lastScrollY := currentScrollY\<rparr>
      in if \<bar>delta\<bar> < 0.1 then s1
         else
           let normalizedDelta = min 1.0 (\<bar>delta\<bar> / (if mobile then 15 else 30));
               speedFactor = min 1.0 (\<bar>delta\<bar> / (if mobile then 12 else 25));
               s2 = s1\<lparr>targetDirection := (0, normalizedDelta * sgn delta),
                       targetAberrationStrength := speedFactor * maxAberration,
                       isScrolling := True,
                       forceReset := False\<rparr>;
               s3 = (case scrollTimer s2 of None \<Rightarrow> s2 | Some h \<Rightarrow> clearTimeout h s2);
               (h, s4) = setTimeout Debounce (if mobile then 250 else 200) s3
           in s4\<lparr>scrollTimer := Some h\<rparr>)"

text \<open>The callback of the debounce timer.\<close>

definition scrollTimerExpired :: "scroll_state \<Rightarrow> scroll_state" where
  "scrollTimerExpired s = s\<lparr>isScrolling := False, targetAberrationStrength := 0\<rparr>"

text \<open>A pending timer fires: it leaves the table and its callback runs.\<close>

definition fireTimer :: "nat \<Rightarrow> scroll_state \<Rightarrow> scroll_state" where
  "fireTimer h s =
     (case timers s h of
        None \<Rightarrow> s
      | Some (ms, cb) \<Rightarrow>
          (let s1 = s\<lparr>timers := (timers s)(h := None)\<rparr>
           in case cb of Debounce \<Rightarrow> scrollTimerExpired s1 | Watchdog \<Rightarrow> s1))"

text \<open>
  The end of the frame callback writes the uniforms. The direction uniform is given the
  vector object of \<open>currentDirection\<close> itself; that vector is only written inside the
  frame callback, so the value recorded here is the one the shader reads.
\<close>

definition updateUniforms :: "real \<Rightarrow> scroll_state \<Rightarrow> scroll_state" where
  "updateUniforms offset s =
     s\<lparr>uAberrationStrength := currentAberrationStrength s,
       uAberrationDirection := currentDirection s,
       uOffset := (0, offset)\<rparr>"

definition useFrame :: "bool \<Rightarrow> real \<Rightarrow> scroll_state \<Rightarrow> scroll_state" where
  "useFrame mobile delta s =
     (if \<not> material s then s
      else
        let strengthDamping = (if mobile then 0.12 else 0.15);
            s2 =
              (if forceReset s then
                 let resetDamping = (if mobile then 0.4 else 0.25);
                     s1 = s\<lparr>currentAberrationStrength :=
                               lerp (currentAberrationStrength s) 0 resetDamping,
                             currentDirection :=
                               vlerp (currentDirection s) (0, 0) resetDamping\<rparr>
                 in if currentAberrationStrength s1 < 0.0005
                    then s1\<lparr>currentAberrationStrength := 0,
                            currentDirection := (0, 0),
                            forceReset := False\<rparr>
                    else s1
               else
                 let scaledDamping = 1.0 - (1.0 - strengthDamping) powr (delta * 60);
                     c = lerp (currentAberrationStrength s)
                           (targetAberrationStrength s) scaledDamping;
                     c1 = (if c < 0.0005 then 0 else c);
                     directionDamping = (if mobile then 0.12 else 0.15);
                     scaledDirectionDamping =
                       1.0 - (1.0 - directionDamping) powr (delta * 60)
                 in s\<lparr>currentAberrationStrength := c1,
                      currentDirection :=
                        vlerp (currentDirection s) (targetDirection s)
                          scaledDirectionDamping\<rparr>)
        in updateUniforms
             (currentAberrationStrength s2 * 0.5 * snd (currentDirection s2)) s2)"

text \<open>
  The base of the time-scaled damping, \<open>1.0 - strengthDamping\<close>: 0.88 on mobile, 0.85
  otherwise.
\<close>

definition base :: "bool \<Rightarrow> real" where
  "base mobile = (if mobile then 0.88 else 0.85)"


subsection \<open>Second variant (fixed per-frame damping, watchdog timer)\<close>

definition handleScroll2 :: "real \<Rightarrow> real \<Rightarrow> scroll_state \<Rightarrow> scroll_state" where
  "handleScroll2 maxAberration currentScrollY s =
     (let delta = currentScrollY - lastScrollY s;
          s1 = s\<lparr>lastScrollY := currentScrollY\<rparr>
      in if \<bar>delta\<bar> < 0.5 then s1
         else
           let direction = sgn delta;
               speedFactor = min 1.0 (\<bar>delta\<bar> / 20);
               s2 = s1\<lparr>targetDirection := (0, direction),
                       targetAberrationStrength := speedFactor * maxAberration,
                       isScrolling := True,
                       forceReset := False\<rparr>;
               s3 = (case scrollTimer s2 of None \<Rightarrow> s2 | Some h \<Rightarrow> clearTimeout h s2);
               (h, s4) = setTimeout Debounce 200 s3
           in s4\<lparr>scrollTimer := Some h\<rparr>)"

text \<open>
  The callback of the debounce timer starts a second timer, whose handle is dropped.
\<close>

definition scrollTimerExpired2 :: "scroll_state \<Rightarrow> scroll_state" where
  "scrollTimerExpired2 s =
     snd (setTimeout Watchdog 1000
            (s\<lparr>isScrolling := False, targetAberrationStrength := 0\<rparr>))"

definition watchdogExpired2 :: "scroll_state \<Rightarrow> scroll_state" where
  "watchdogExpired2 s =
     (if currentAberrationStrength s > 0 \<and> currentAberrationStrength s < 0.05
      then s\<lparr>forceReset := True\<rparr> else s)"

definition fireTimer2 :: "nat \<Rightarrow> scroll_state \<Rightarrow> scroll_state" where
  "fireTimer2 h s =
     (case timers s h of
        None \<Rightarrow> s
      | Some (ms, cb) \<Rightarrow>
          (let s1 = s\<lparr>timers := (timers s)(h := None)\<rparr>
           in case cb of Debounce \<Rightarrow> scrollTimerExpired2 s1
                       | Watchdog \<Rightarrow> watchdogExpired2 s1))"

definition useFrame2 :: "real \<Rightarrow> scroll_state \<Rightarrow> scroll_state" where
  "useFrame2 delta s =
     (if \<not> material s then s
      else
        let strengthDamping = (if isScrolling s then 0.15 else 0.08);
            s2 =
              (if forceReset s then
                 s\<lparr>currentAberrationStrength := 0,
                   currentDirection := (0, 0),
                   forceReset := False\<rparr>
               else
                 let c = lerp (currentAberrationStrength s)
                           (targetAberrationStrength s) strengthDamping;
                     c1 = (if c < 0.001 then 0 else c);
                     directionDamping = 0.2
                 in s\<lparr>currentAberrationStrength := c1,
                      currentDirection :=
                        vlerp (currentDirection s) (targetDirection s) directionDamping\<rparr>)
        in updateUniforms
             (currentAberrationStrength s2 * 0.5 *
                (if snd (currentDirection s2) = 0 then 0 else sgn (snd (currentDirection s2))))
             s2)"

subsection \<open>Event traces\<close>

text \<open>
  What can happen to a mounted item: a scroll (or touch-move) callback runs, a frame is
  rendered, a timer fires, or the texture arrives and the material is created. Scroll and
  frame events carry the value of \<open>isMobile()\<close> at that moment.
\<close>

datatype event =
    Scroll bool real
  | Frame bool real
  | Timer nat
  | TextureLoaded

fun step :: "real \<Rightarrow> event \<Rightarrow> scroll_state \<Rightarrow> scroll_state" where
  "step mx (Scroll mobile y) s = handleScroll mobile mx y s"
| "step mx (Frame mobile delta) s = useFrame mobile delta s"
| "step mx (Timer h) s = fireTimer h s"
| "step mx TextureLoaded s = s\<lparr>material := True\<rparr>"

fun step2 :: "real \<Rightarrow> event \<Rightarrow> scroll_state \<Rightarrow> scroll_state" where
  "step2 mx (Scroll mobile y) s = handleScroll2 mx y s"
| "step2 mx (Frame mobile delta) s = useFrame2 delta s"
| "step2 mx (Timer h) s = fireTimer2 h s"
| "step2 mx TextureLoaded s = s\<lparr>material := True\<rparr>"

definition run :: "real \<Rightarrow> event list \<Rightarrow> scroll_state \<Rightarrow> scroll_state" where
  "run mx es s = fold (step mx) es s"

definition run2 :: "real \<Rightarrow> event list \<Rightarrow> scroll_state \<Rightarrow> scroll_state" where
  "run2 mx es s = fold (step2 mx) es s"

text \<open>A frame never reports a negative elapsed time.\<close>

fun okEvent :: "event \<Rightarrow> bool" where
  "okEvent (Frame mobile delta) = (0 \<le> delta)"
| "okEvent _ = True"

text \<open>
  The invariant of the traces: current and target strength both lie between 0 and the
  configured maximum.
\<close>

definition bounded :: "real \<Rightarrow> scroll_state \<Rightarrow> bool" where
  "bounded mx s \<longleftrightarrow>
     0 \<le> currentAberrationStrength s \<and> currentAberrationStrength s \<le> mx \<and>
     0 \<le> targetAberrationStrength s \<and> targetAberrationStrength s \<le> mx"

section \<open>The overlay and the page\<close>

text \<open>
  An image element of the page, as far as the overlay reads or writes it: its source, the
  rectangle \<open>getBoundingClientRect()\<close> returns, its \<open>width\<close> and \<open>height\<close> properties,
  the two marker attributes, the inline opacity and the \<open>data-chromatic-id\<close> attribute.
\<close>

record DOMRect =
  rect_left :: real
  rect_top :: real
  rect_width :: real
  rect_height :: real

record img_element =
  img_src :: string
  img_rect :: DOMRect
  img_width :: nat
  img_height :: nat
  dataShader :: bool
  dataChromaticDecay :: bool
  opacity :: string
  chromaticId :: "string option"

record ImageSize =
  width :: real
  height :: real

record ImageData =
  src :: string
  position :: "real \<times> real \<times> real"
  size_of :: ImageSize

record window =
  innerWidth :: real
  innerHeight :: real

record viewport =
  viewportWidth :: real
  viewportHeight :: real

text \<open>
  \<open>ShaderEffectOverlay\<close>: its state, the page it works on and the listeners it has
  attached to the window (by event name).
\<close>

record overlay =
  imageData :: "ImageData list"
  setupComplete :: bool
  dom :: "img_element list"
  listeners :: "string list"

text \<open>The entry \<open>setupImages\<close> pushes for one image (first variant: sizes from the rectangle).\<close>

definition newImageData :: "window \<Rightarrow> viewport \<Rightarrow> img_element \<Rightarrow> ImageData" where
  "newImageData win vp img =
     (let rect = img_rect img;
          worldWidth = (rect_width rect / innerWidth win) * viewportWidth vp;
          worldHeight = (rect_height rect / innerHeight win) * viewportHeight vp;
          worldX = ((rect_left rect + rect_width rect / 2) / innerWidth win) * viewportWidth vp
                   - viewportWidth vp / 2;
          worldY = - (((rect_top rect + rect_height rect / 2) / innerHeight win)
                      * viewportHeight vp)
                   + viewportHeight vp / 2
      in \<lparr> src = img_src img, position = (worldX, worldY, 0),
           size_of = \<lparr> width = worldWidth, height = worldHeight \<rparr> \<rparr>)"

text \<open>Second variant: sizes from the image's \<open>width\<close> and \<open>height\<close> properties.\<close>

definition newImageData2 :: "window \<Rightarrow> viewport \<Rightarrow> img_element \<Rightarrow> ImageData" where
  "newImageData2 win vp img =
     (let rect = img_rect img;
          worldWidth = (real (img_width img) / innerWidth win) * viewportWidth vp;
          worldHeight = (real (img_height img) / innerHeight win) * viewportHeight vp;
          worldX = ((rect_left rect + rect_width rect / 2) / innerWidth win) * viewportWidth vp
                   - viewportWidth vp / 2;
          worldY = - (((rect_top rect + rect_height rect / 2) / innerHeight win)
                      * viewportHeight vp)
                   + viewportHeight vp / 2
      in \<lparr> src = img_src img, position = (worldX, worldY, 0),
           size_of = \<lparr> width = worldWidth, height = worldHeight \<rparr> \<rparr>)"

definition hide :: "img_element \<Rightarrow> img_element" where
  "hide img = img\<lparr>opacity := ''0''\<rparr>"

definition setupImages :: "window \<Rightarrow> viewport \<Rightarrow> overlay \<Rightarrow> overlay" where
  "setupImages win vp ov =
     ov\<lparr>imageData := map (newImageData win vp) (filter dataShader (dom ov)),
        dom := map (\<lambda>img. if dataShader img then hide img else img) (dom ov),
        setupComplete := True\<rparr>"

definition setupImages2 :: "window \<Rightarrow> viewport \<Rightarrow> overlay \<Rightarrow> overlay" where
  "setupImages2 win vp ov =
     ov\<lparr>imageData := map (newImageData2 win vp) (filter dataShader (dom ov)),
        dom := map (\<lambda>img. if dataShader img then hide img else img) (dom ov),
        setupComplete := True\<rparr>"

text \<open>
  The effect of \<open>ShaderEffectOverlay\<close> (the same in both variants, up to debouncing of the
  resize handler): run \<open>setupImages\<close>, listen for \<open>resize\<close>; the cleanup removes that
  listener.
\<close>

definition overlayMount :: "window \<Rightarrow> viewport \<Rightarrow> overlay \<Rightarrow> overlay" where
  "overlayMount win vp ov =
     (let ov1 = setupImages win vp ov
      in ov1\<lparr>listeners := listeners ov1 @ [''resize'']\<rparr>)"

definition overlayMount2 :: "window \<Rightarrow> viewport \<Rightarrow> overlay \<Rightarrow> overlay" where
  "overlayMount2 win vp ov =
     (let ov1 = setupImages2 win vp ov
      in ov1\<lparr>listeners := listeners ov1 @ [''resize'']\<rparr>)"

definition overlayCleanup :: "overlay \<Rightarrow> overlay" where
  "overlayCleanup ov = ov\<lparr>listeners := remove1 ''resize'' (listeners ov)\<rparr>"

text \<open>
  \<open>ChromaticImages\<close>, the sibling overlay for images marked \<open>data-chromatic-decay\<close>.
  \<open>found\<close> holds the positions in the page of the elements the effect has found (the
  array its cleanup closes over), \<open>observed\<close> the positions its intersection observer
  watches.
\<close>

record chromatic =
  cdom :: "img_element list"
  found :: "nat list"
  observed :: "nat list"

text \<open>The decimal digits of an index, as the template literal prints them.\<close>

fun string_of_nat :: "nat \<Rightarrow> string" where
  "string_of_nat n =
     (if n < 10 then [''0123456789'' ! n]
      else string_of_nat (n div 10) @ [''0123456789'' ! (n mod 10)])"

text \<open>The positions of the elements matching \<open>img[data-chromatic-decay]\<close>, in page order.\<close>

definition querySelectorAll_decay :: "img_element list \<Rightarrow> nat list" where
  "querySelectorAll_decay d = filter (\<lambda>i. dataChromaticDecay (d ! i)) [0..<length d]"

text \<open>Applying a change to the element at a position the page has.\<close>

definition modify ::
  "nat \<Rightarrow> (img_element \<Rightarrow> img_element) \<Rightarrow> img_element list \<Rightarrow> img_element list" where
  "modify i f d = (if i < length d then d[i := f (d ! i)] else d)"

definition chromaticMount :: "chromatic \<Rightarrow> chromatic" where
  "chromaticMount c =
     (let chromaticImages = querySelectorAll_decay (cdom c);
          d1 = fold (\<lambda>(index, i). modify i
                  (\<lambda>img. img\<lparr>chromaticId := Some (''chromatic-image-'' @ string_of_nat index)\<rparr>))
                (zip [0..<length chromaticImages] chromaticImages) (cdom c);
          d2 = fold (\<lambda>i. modify i hide) chromaticImages d1
      in c\<lparr>cdom := d2, found := chromaticImages, observed := chromaticImages\<rparr>)"

definition chromaticCleanup :: "chromatic \<Rightarrow> chromatic" where
  "chromaticCleanup c =
     c\<lparr>observed := [],
       cdom := fold (\<lambda>i. modify i (\<lambda>img. img\<lparr>opacity := [], chromaticId := None\<rparr>))
                 (found c) (cdom c)\<rparr>"

text \<open>
  The centre of a rectangle on the screen: the two sums \<open>setupImages\<close> forms from it.
\<close>

definition rectCenter :: "DOMRect \<Rightarrow> real \<times> real" where
  "rectCenter rect =
     (rect_left rect + rect_width rect / 2, rect_top rect + rect_height rect / 2)"

text \<open>
  The round trip of the coordinate mapping, following the specification's words: a world
  position is mapped back to the screen by undoing the centring, scaling by the ratio of
  window to viewport, and inverting the vertical axis again.
\<close>

definition spec_screenCenter ::
  "window \<Rightarrow> viewport \<Rightarrow> real \<times> real \<times> real \<Rightarrow> real \<times> real" where
  "spec_screenCenter win vp p =
     (case p of (x, y, z) \<Rightarrow>
        ((x + viewportWidth vp / 2) * (innerWidth win / viewportWidth vp),
         (viewportHeight vp / 2 - y) * (innerHeight win / viewportHeight vp)))"

text \<open>States used to run the theorems on concrete inputs.\<close>

definition resting :: scroll_state where
  "resting = (initial 0)\<lparr>material := True, currentAberrationStrength := 0.002\<rparr>"

definition scrolling :: scroll_state where
  "scrolling = handleScroll2 2 10 (handleScroll True 2 110 ((initial 100)
      \<lparr>material := True, currentAberrationStrength := 1\<rparr>))"

definition stuck :: scroll_state where
  "stuck = scrollTimerExpired2 ((initial 0)
      \<lparr>material := True, currentAberrationStrength := 0.01, currentDirection := (0, 1)\<rparr>)"

definition slow :: scroll_state where
  "slow = (initial 0)\<lparr>material := True, targetAberrationStrength := 0.002\<rparr>"



definition cruising :: scroll_state where
  "cruising = (initial 0)\<lparr>material := True, isScrolling := True,
     targetAberrationStrength := 2, currentAberrationStrength := 1\<rparr>"

text \<open>
  A page like the one of \<open>Skills\<close>: one image marked \<open>data-shader\<close> with no inline
  opacity, in a window of 1280 by 720 pixels under a viewport of 16 by 9 units; and a page
  with an image marked \<open>data-chromatic-decay\<close>.
\<close>

definition jsLogo :: img_element where
  "jsLogo = \<lparr> img_src = ''js.png'',
      img_rect = \<lparr> rect_left = 100, rect_top = 200, rect_width = 64, rect_height = 64 \<rparr>,
      img_width = 64, img_height = 64, dataShader = True, dataChromaticDecay = False,
      opacity = [], chromaticId = None \<rparr>"

definition skillsPage :: overlay where
  "skillsPage = \<lparr> imageData = [], setupComplete = False, dom = [jsLogo], listeners = [] \<rparr>"

definition desktop :: window where
  "desktop = \<lparr> innerWidth = 1280, innerHeight = 720 \<rparr>"

definition canvasViewport :: viewport where
  "canvasViewport = \<lparr> viewportWidth = 16, viewportHeight = 9 \<rparr>"

definition decayPage :: chromatic where
  "decayPage = \<lparr> cdom = [jsLogo\<lparr>dataShader := False, dataChromaticDecay := True\<rparr>, jsLogo],
      found = [], observed = [] \<rparr>"

section \<open>Scroll handler\<close>

text \<open>
  C3. A scroll of +40 pixels on a desktop device with \<open>maxAberration = 2\<close> sets the
  target strength to exactly 2 and the target direction to (0, 1). The first variant
  divides by 25 (and by 30 for the direction), the second by 20; both reach the clamp.
\<close>

theorem C3_scroll_forty:
  "targetAberrationStrength
     (handleScroll (isMobile False 1280) 2 (lastScrollY s + 40) s) = 2
   \<and> targetDirection
       (handleScroll (isMobile False 1280) 2 (lastScrollY s + 40) s) = (0, 1)
   \<and> min 1 (40 / 25) * 2 = (2::real)
   \<and> targetAberrationStrength (handleScroll2 2 (lastScrollY s + 40) s) = 2
   \<and> targetDirection (handleScroll2 2 (lastScrollY s + 40) s) = (0, 1)"
  by (simp add: handleScroll_def handleScroll2_def isMobile_def setTimeout_def
      clearTimeout_def Let_def split: option.split)

text \<open>
  C5. A scroll whose delta is below the noise threshold (0.1 in the first variant, 0.5 in
  the second) only records the new offset: targets, scrolling flag, timer handle and the
  table of pending timers are as before.
\<close>

theorem C5_below_threshold:
  "(\<bar>y - lastScrollY s\<bar> < 0.1 \<longrightarrow>
      handleScroll mobile mx y s = s\<lparr>lastScrollY := y\<rparr>)
   \<and> (\<bar>y - lastScrollY s\<bar> < 0.5 \<longrightarrow>
      handleScroll2 mx y s = s\<lparr>lastScrollY := y\<rparr>)"
  by (simp add: handleScroll_def handleScroll2_def Let_def)

theorem C5_below_threshold_witness:
  "\<bar>(100.05::real) - lastScrollY (initial 100)\<bar> < 0.1
   \<and> handleScroll False 2 100.05 (initial 100) = (initial 100)\<lparr>lastScrollY := 100.05\<rparr>
   \<and> \<bar>(100.05::real) - lastScrollY (initial 100)\<bar> < 0.5
   \<and> handleScroll2 2 100.05 (initial 100) = (initial 100)\<lparr>lastScrollY := 100.05\<rparr>"
  using C5_below_threshold [of "100.05" "initial 100" False 2]
  by (simp add: initial_def)

lemma handleScroll_above:
  assumes "\<not> \<bar>y - lastScrollY s\<bar> < 0.1"
  shows "handleScroll mobile mx y s =
     s\<lparr>lastScrollY := y,
       targetDirection :=
         (0, min 1 (\<bar>y - lastScrollY s\<bar> / (if mobile then 15 else 30)) * sgn (y - lastScrollY s)),
       targetAberrationStrength :=
         min 1 (\<bar>y - lastScrollY s\<bar> / (if mobile then 12 else 25)) * mx,
       isScrolling := True,
       forceReset := False,
       timers := (case scrollTimer s of None \<Rightarrow> timers s | Some h \<Rightarrow> (timers s)(h := None))
                   (nextTimer s \<mapsto> (if mobile then 250 else 200, Debounce)),
       nextTimer := Suc (nextTimer s),
       scrollTimer := Some (nextTimer s)\<rparr>"
proof (cases "scrollTimer s")
  case None
  with assms show ?thesis
    unfolding handleScroll_def setTimeout_def clearTimeout_def Let_def by simp
next
  case (Some h)
  with assms show ?thesis
    unfolding handleScroll_def setTimeout_def clearTimeout_def Let_def by simp
qed

lemma handleScroll2_above:
  assumes "\<not> \<bar>y - lastScrollY s\<bar> < 0.5"
  shows "handleScroll2 mx y s =
     s\<lparr>lastScrollY := y,
       targetDirection := (0, sgn (y - lastScrollY s)),
       targetAberrationStrength := min 1 (\<bar>y - lastScrollY s\<bar> / 20) * mx,
       isScrolling := True,
       forceReset := False,
       timers := (case scrollTimer s of None \<Rightarrow> timers s | Some h \<Rightarrow> (timers s)(h := None))
                   (nextTimer s \<mapsto> (200, Debounce)),
       nextTimer := Suc (nextTimer s),
       scrollTimer := Some (nextTimer s)\<rparr>"
proof (cases "scrollTimer s")
  case None
  with assms show ?thesis
    unfolding handleScroll2_def setTimeout_def clearTimeout_def Let_def by simp
next
  case (Some h)
  with assms show ?thesis
    unfolding handleScroll2_def setTimeout_def clearTimeout_def Let_def by simp
qed

text \<open>
  C6. A scroll at or above the threshold sets the scrolling flag, cancels the timer whose
  handle is stored and starts a debounce timer of 200 ms (250 ms on mobile in the first
  variant), storing its handle. When that timer fires, the scrolling flag is cleared and
  the target strength becomes 0; the current strength is not touched.
\<close>

theorem C6_debounce:
  "(\<not> \<bar>y - lastScrollY s\<bar> < 0.1 \<longrightarrow>
      isScrolling (handleScroll mobile mx y s)
      \<and> scrollTimer (handleScroll mobile mx y s) = Some (nextTimer s)
      \<and> timers (handleScroll mobile mx y s) (nextTimer s)
          = Some (if mobile then 250 else 200, Debounce)
      \<and> (\<forall>h. scrollTimer s = Some h \<and> h \<noteq> nextTimer s \<longrightarrow>
            timers (handleScroll mobile mx y s) h = None)
      \<and> \<not> isScrolling (fireTimer (nextTimer s) (handleScroll mobile mx y s))
      \<and> targetAberrationStrength (fireTimer (nextTimer s) (handleScroll mobile mx y s)) = 0
      \<and> currentAberrationStrength (fireTimer (nextTimer s) (handleScroll mobile mx y s))
          = currentAberrationStrength s)
   \<and> (\<not> \<bar>y - lastScrollY s\<bar> < 0.5 \<longrightarrow>
      isScrolling (handleScroll2 mx y s)
      \<and> scrollTimer (handleScroll2 mx y s) = Some (nextTimer s)
      \<and> timers (handleScroll2 mx y s) (nextTimer s) = Some (200, Debounce)
      \<and> (\<forall>h. scrollTimer s = Some h \<and> h \<noteq> nextTimer s \<longrightarrow>
            timers (handleScroll2 mx y s) h = None)
      \<and> \<not> isScrolling (fireTimer2 (nextTimer s) (handleScroll2 mx y s))
      \<and> targetAberrationStrength (fireTimer2 (nextTimer s) (handleScroll2 mx y s)) = 0
      \<and> currentAberrationStrength (fireTimer2 (nextTimer s) (handleScroll2 mx y s))
          = currentAberrationStrength s)"
proof (intro conjI impI)
  assume a: "\<not> \<bar>y - lastScrollY s\<bar> < 0.1"
  note eq = handleScroll_above [OF a, of mobile mx]
  show "isScrolling (handleScroll mobile mx y s)"
    and "scrollTimer (handleScroll mobile mx y s) = Some (nextTimer s)"
    and "timers (handleScroll mobile mx y s) (nextTimer s)
          = Some (if mobile then 250 else 200, Debounce)"
    unfolding eq by simp_all
  show "\<forall>h. scrollTimer s = Some h \<and> h \<noteq> nextTimer s \<longrightarrow>
            timers (handleScroll mobile mx y s) h = None"
    unfolding eq by simp
  show "\<not> isScrolling (fireTimer (nextTimer s) (handleScroll mobile mx y s))"
    and "targetAberrationStrength (fireTimer (nextTimer s) (handleScroll mobile mx y s)) = 0"
    and "currentAberrationStrength (fireTimer (nextTimer s) (handleScroll mobile mx y s))
          = currentAberrationStrength s"
    unfolding eq by (simp_all add: fireTimer_def scrollTimerExpired_def)
next
  assume a: "\<not> \<bar>y - lastScrollY s\<bar> < 0.5"
  note eq = handleScroll2_above [OF a, of mx]
  show "isScrolling (handleScroll2 mx y s)"
    and "scrollTimer (handleScroll2 mx y s) = Some (nextTimer s)"
    and "timers (handleScroll2 mx y s) (nextTimer s) = Some (200, Debounce)"
    unfolding eq by simp_all
  show "\<forall>h. scrollTimer s = Some h \<and> h \<noteq> nextTimer s \<longrightarrow>
            timers (handleScroll2 mx y s) h = None"
    unfolding eq by simp
  show "\<not> isScrolling (fireTimer2 (nextTimer s) (handleScroll2 mx y s))"
    and "targetAberrationStrength (fireTimer2 (nextTimer s) (handleScroll2 mx y s)) = 0"
    and "currentAberrationStrength (fireTimer2 (nextTimer s) (handleScroll2 mx y s))
          = currentAberrationStrength s"
    unfolding eq by (simp_all add: fireTimer2_def scrollTimerExpired2_def setTimeout_def)
qed

lemma scrolling_eq:
  "scrolling =
     \<lparr> material = True, isScrolling = True,
       targetAberrationStrength = 2, currentAberrationStrength = 1,
       targetDirection = (0, -1), currentDirection = (0, 0),
       lastScrollY = 10, scrollTimer = Some 2, forceReset = False,
       uAberrationStrength = 0, uAberrationDirection = (0, 0), uOffset = (0, 0),
       timers = [2 \<mapsto> (200, Debounce)], nextTimer = 3 \<rparr>"
  unfolding scrolling_def
  by (simp add: handleScroll_above handleScroll2_above initial_def fun_eq_iff)

theorem C6_debounce_witness:
  "\<not> \<bar>(140::real) - lastScrollY scrolling\<bar> < 0.1
   \<and> \<not> \<bar>(140::real) - lastScrollY scrolling\<bar> < 0.5
   \<and> nextTimer scrolling = 3 \<and> scrollTimer scrolling = Some 2
   \<and> timers scrolling 2 = Some (200, Debounce)
   \<and> timers (handleScroll True 2 140 scrolling) 3 = Some (250, Debounce)
   \<and> timers (handleScroll True 2 140 scrolling) 2 = None
   \<and> \<not> isScrolling (fireTimer 3 (handleScroll True 2 140 scrolling))
   \<and> targetAberrationStrength (fireTimer 3 (handleScroll True 2 140 scrolling)) = 0
   \<and> currentAberrationStrength (fireTimer 3 (handleScroll True 2 140 scrolling)) = 1
   \<and> timers (handleScroll2 2 140 scrolling) 3 = Some (200, Debounce)
   \<and> \<not> isScrolling (fireTimer2 3 (handleScroll2 2 140 scrolling))
   \<and> currentAberrationStrength (fireTimer2 3 (handleScroll2 2 140 scrolling)) = 1"
  using C6_debounce [of 140 scrolling True 2]
  by (simp add: scrolling_eq)

section \<open>Frame update\<close>

lemma lerp_between:
  assumes "0 \<le> t" "t \<le> 1" "lo \<le> x" "x \<le> hi" "lo \<le> y" "y \<le> hi"
  shows "lo \<le> lerp x y t \<and> lerp x y t \<le> hi"
proof -
  have a: "0 \<le> 1 - t" using assms by simp
  have "(1 - t) * lo + t * lo \<le> (1 - t) * x + t * y"
    using assms a by (intro add_mono mult_left_mono) auto
  moreover have "(1 - t) * x + t * y \<le> (1 - t) * hi + t * hi"
    using assms a by (intro add_mono mult_left_mono) auto
  moreover have "(1 - t) * lo + t * lo = lo" "(1 - t) * hi + t * hi = hi"
    by (simp_all add: algebra_simps)
  ultimately show ?thesis by (simp add: lerp_def)
qed

lemma scaledDamping_range:
  assumes "0 \<le> (delta::real)" "0 < (b::real)" "b \<le> 1"
  shows "0 \<le> 1 - b powr (delta * 60) \<and> 1 - b powr (delta * 60) \<le> 1"
proof -
  have "b powr (delta * 60) \<le> 1"
    using assms by (intro powr_le1) auto
  moreover have "0 \<le> b powr (delta * 60)" by simp
  ultimately show ?thesis by simp
qed

text \<open>The strength a frame leaves, path by path.\<close>

lemma useFrame_strength:
  assumes "material s"
  shows "currentAberrationStrength (useFrame mobile delta s) =
     (let c = lerp (currentAberrationStrength s)
                (if forceReset s then 0 else targetAberrationStrength s)
                (if forceReset s then (if mobile then 0.4 else 0.25)
                 else 1 - (if mobile then 0.88 else 0.85) powr (delta * 60))
      in if c < 0.0005 then 0 else c)"
  using assms by (cases mobile; cases "forceReset s")
    (simp_all add: useFrame_def updateUniforms_def Let_def)

lemma useFrame2_strength:
  assumes "material s"
  shows "currentAberrationStrength (useFrame2 delta s) =
     (if forceReset s then 0
      else let c = lerp (currentAberrationStrength s) (targetAberrationStrength s)
                     (if isScrolling s then 0.15 else 0.08)
           in if c < 0.001 then 0 else c)"
  using assms by (cases "isScrolling s"; cases "forceReset s")
    (simp_all add: useFrame2_def updateUniforms_def Let_def)

lemma useFrame_keeps:
  "targetAberrationStrength (useFrame mobile delta s) = targetAberrationStrength s"
  "material (useFrame mobile delta s) = material s"
  "targetAberrationStrength (useFrame2 delta s) = targetAberrationStrength s"
  "material (useFrame2 delta s) = material s"
  by (simp_all add: useFrame_def useFrame2_def updateUniforms_def Let_def)

section \<open>Strength stays in range\<close>

lemma speedFactor_range:
  assumes "0 \<le> mx" "0 < k"
  shows "0 \<le> min 1 (\<bar>d\<bar> / k) * mx \<and> min 1 (\<bar>d :: real\<bar> / k) * mx \<le> mx"
proof -
  have "0 \<le> min 1 (\<bar>d\<bar> / k)" using assms by simp
  moreover have "min 1 (\<bar>d\<bar> / k) \<le> 1" by simp
  ultimately show ?thesis using assms
    by (metis mult_left_le_one_le mult_nonneg_nonneg)
qed

lemma bounded_handleScroll:
  assumes "0 \<le> mx" "bounded mx s"
  shows "bounded mx (handleScroll mobile mx y s)"
  using assms speedFactor_range [of mx 12 "y - lastScrollY s"]
    speedFactor_range [of mx 25 "y - lastScrollY s"]
  by (simp add: bounded_def handleScroll_def setTimeout_def clearTimeout_def Let_def
      split: option.split)

lemma bounded_handleScroll2:
  assumes "0 \<le> mx" "bounded mx s"
  shows "bounded mx (handleScroll2 mx y s)"
  using assms speedFactor_range [of mx 20 "y - lastScrollY s"]
  by (simp add: bounded_def handleScroll2_def setTimeout_def clearTimeout_def Let_def
      split: option.split)

lemma bounded_fireTimer:
  assumes "0 \<le> mx" "bounded mx s"
  shows "bounded mx (fireTimer h s)"
  using assms
  by (simp add: bounded_def fireTimer_def scrollTimerExpired_def Let_def
      split: option.split callback.split)

lemma bounded_fireTimer2:
  assumes "0 \<le> mx" "bounded mx s"
  shows "bounded mx (fireTimer2 h s)"
  using assms
  by (simp add: bounded_def fireTimer2_def scrollTimerExpired2_def watchdogExpired2_def
      setTimeout_def Let_def split: option.split callback.split)

lemma bounded_useFrame:
  assumes "0 \<le> mx" "bounded mx s" "0 \<le> delta"
  shows "bounded mx (useFrame mobile delta s)"
proof -
  let ?c = "currentAberrationStrength s" and ?t = "targetAberrationStrength s"
  have r: "0 \<le> ?c" "?c \<le> mx" "0 \<le> ?t" "?t \<le> mx"
    using assms by (simp_all add: bounded_def)
  have a: "0 \<le> lerp ?c ?t (1 - b powr (delta * 60)) \<and> lerp ?c ?t (1 - b powr (delta * 60)) \<le> mx"
    if "0 < b" "b \<le> 1" for b
    using scaledDamping_range [OF assms(3) that] r by (intro lerp_between) auto
  have b: "0 \<le> lerp ?c 0 d \<and> lerp ?c 0 d \<le> mx" if "0 \<le> d" "d \<le> 1" for d
    using that r assms(1) by (intro lerp_between) auto
  show ?thesis
    using r a [of "0.85"] a [of "0.88"] b [of "0.4"] b [of "0.25"]
    by (simp add: bounded_def useFrame_def updateUniforms_def Let_def)
qed

lemma bounded_useFrame2:
  assumes "0 \<le> mx" "bounded mx s"
  shows "bounded mx (useFrame2 delta s)"
proof -
  let ?c = "currentAberrationStrength s" and ?t = "targetAberrationStrength s"
  have r: "0 \<le> ?c" "?c \<le> mx" "0 \<le> ?t" "?t \<le> mx"
    using assms by (simp_all add: bounded_def)
  have a: "0 \<le> lerp ?c ?t d \<and> lerp ?c ?t d \<le> mx" if "0 \<le> d" "d \<le> 1" for d
    using that r by (intro lerp_between) auto
  show ?thesis
    using r a [of "0.15"] a [of "0.08"]
    by (simp add: bounded_def useFrame2_def updateUniforms_def Let_def)
qed

lemma bounded_step:
  assumes "0 \<le> mx" "bounded mx s" "okEvent e"
  shows "bounded mx (step mx e s)" "bounded mx (step2 mx e s)"
  using assms
  by (cases e; simp add: bounded_handleScroll bounded_useFrame bounded_fireTimer
      bounded_handleScroll2 bounded_useFrame2 bounded_fireTimer2; simp add: bounded_def)+

lemma bounded_fold:
  assumes "0 \<le> mx" "\<forall>e\<in>set es. okEvent e" "bounded mx s"
  shows "bounded mx (fold (step mx) es s) \<and> bounded mx (fold (step2 mx) es s)"
  using assms(2,3)
proof (induction es arbitrary: s)
  case Nil
  then show ?case by simp
next
  case (Cons e es)
  then have "okEvent e" "\<forall>x\<in>set es. okEvent x" by simp_all
  moreover note bounded_step [OF assms(1) Cons.prems(2) \<open>okEvent e\<close>]
  ultimately show ?case using Cons.IH by simp
qed

text \<open>
  C1. Starting from the initial state, after any sequence of scroll callbacks, frames with
  non-negative elapsed time, timer expiries and texture arrivals, the current strength lies
  between 0 and the configured (non-negative) maximum, in both variants.
\<close>

theorem C1_strength_bounded:
  assumes "0 \<le> mx" "\<forall>e\<in>set es. okEvent e"
  shows "0 \<le> currentAberrationStrength (run mx es (initial y0))
       \<and> currentAberrationStrength (run mx es (initial y0)) \<le> mx
       \<and> 0 \<le> currentAberrationStrength (run2 mx es (initial y0))
       \<and> currentAberrationStrength (run2 mx es (initial y0)) \<le> mx"
proof -
  have "bounded mx (initial y0)"
    using assms(1) by (simp add: bounded_def initial_def)
  from bounded_fold [OF assms this] show ?thesis
    by (simp add: bounded_def run_def run2_def)
qed

theorem C1_strength_bounded_witness:
  "(0::real) \<le> 2
   \<and> list_all okEvent [TextureLoaded, Scroll False 110, Frame False (1 / 60)]
   \<and> currentAberrationStrength
        (run 2 [TextureLoaded, Scroll False 110, Frame False (1 / 60)] (initial 100)) = 0.12
   \<and> currentAberrationStrength
        (run 2 [TextureLoaded, Scroll False 110, Frame False (1 / 60)] (initial 100)) \<le> 2
   \<and> 0 \<le> currentAberrationStrength
        (run2 2 [TextureLoaded, Scroll False 110, Frame False (1 / 60)] (initial 100))
   \<and> currentAberrationStrength
        (run2 2 [TextureLoaded, Scroll False 110, Frame False (1 / 60)] (initial 100)) \<le> 2"
  using C1_strength_bounded [of 2 "[TextureLoaded, Scroll False 110, Frame False (1 / 60)]" 100]
  by (simp add: run_def initial_def handleScroll_def useFrame_def setTimeout_def
      updateUniforms_def lerp_def Let_def)

section \<open>Decay to rest\<close>

text \<open>
  C4. With target strength 0 (as the debounce callback leaves it) and a current strength
  that is not negative, a frame with non-negative elapsed time leaves a current strength
  that is not negative and not above the previous one, and that is either exactly 0 or at
  least the epsilon (0.0005 in the first variant, 0.001 in the second): a value below the
  epsilon is replaced by 0. The target stays 0.
\<close>

theorem C4_decay_to_rest:
  assumes "material s" "targetAberrationStrength s = 0"
    "0 \<le> currentAberrationStrength s" "0 \<le> delta"
  shows "0 \<le> currentAberrationStrength (useFrame mobile delta s)
       \<and> currentAberrationStrength (useFrame mobile delta s) \<le> currentAberrationStrength s
       \<and> (currentAberrationStrength (useFrame mobile delta s) = 0
          \<or> 0.0005 \<le> currentAberrationStrength (useFrame mobile delta s))
       \<and> targetAberrationStrength (useFrame mobile delta s) = 0
       \<and> 0 \<le> currentAberrationStrength (useFrame2 delta s)
       \<and> currentAberrationStrength (useFrame2 delta s) \<le> currentAberrationStrength s
       \<and> (currentAberrationStrength (useFrame2 delta s) = 0
          \<or> 0.001 \<le> currentAberrationStrength (useFrame2 delta s))
       \<and> targetAberrationStrength (useFrame2 delta s) = 0"
proof -
  let ?c = "currentAberrationStrength s"
  have a: "0 \<le> lerp ?c 0 d \<and> lerp ?c 0 d \<le> ?c" if "0 \<le> d" "d \<le> 1" for d
    using that assms(3) by (intro lerp_between) auto
  define d1 where "d1 = (if forceReset s then (if mobile then 0.4 else 0.25)
                 else 1 - (if mobile then 0.88 else 0.85) powr (delta * 60))"
  define d2 :: real where "d2 = (if isScrolling s then 0.15 else 0.08)"
  have "0 \<le> d1 \<and> d1 \<le> 1"
    using scaledDamping_range [OF assms(4), of "0.88"] scaledDamping_range [OF assms(4), of "0.85"]
    by (simp add: d1_def)
  then have l1: "0 \<le> lerp ?c 0 d1" "lerp ?c 0 d1 \<le> ?c" using a by simp_all
  have "0 \<le> d2 \<and> d2 \<le> 1" by (simp add: d2_def)
  then have l2: "0 \<le> lerp ?c 0 d2" "lerp ?c 0 d2 \<le> ?c" using a by simp_all
  have e1: "currentAberrationStrength (useFrame mobile delta s) =
      (if lerp ?c 0 d1 < 0.0005 then 0 else lerp ?c 0 d1)"
    using assms(2) by (simp add: useFrame_strength [OF assms(1)] d1_def Let_def)
  have e2: "currentAberrationStrength (useFrame2 delta s) =
      (if forceReset s then 0 else if lerp ?c 0 d2 < 0.001 then 0 else lerp ?c 0 d2)"
    using assms(2) by (simp add: useFrame2_strength [OF assms(1)] d2_def Let_def)
  show ?thesis
    unfolding e1 e2 useFrame_keeps using l1 l2 assms(2,3) by simp
qed

theorem C4_decay_to_rest_witness:
  "material resting \<and> targetAberrationStrength resting = 0
   \<and> 0 \<le> currentAberrationStrength resting \<and> (0::real) \<le> 1 / 60
   \<and> currentAberrationStrength (useFrame False (1 / 60) resting) = 0.0017
   \<and> currentAberrationStrength (useFrame2 (1 / 60) resting) = 0.00184
   \<and> currentAberrationStrength
        (useFrame False (1 / 60) (resting\<lparr>currentAberrationStrength := 0.0005\<rparr>)) = 0
   \<and> currentAberrationStrength
        (useFrame2 (1 / 60) (resting\<lparr>currentAberrationStrength := 0.00105\<rparr>)) = 0"
proof -
  have r: "material resting" "targetAberrationStrength resting = 0"
    "currentAberrationStrength resting = 0.002" "\<not> forceReset resting"
    "\<not> isScrolling resting"
    by (simp_all add: resting_def initial_def)
  have f: "currentAberrationStrength (useFrame False (1 / 60) resting) = 0.0017"
    "currentAberrationStrength (useFrame2 (1 / 60) resting) = 0.00184"
    by (simp_all add: useFrame_strength useFrame2_strength r lerp_def)
  have g: "currentAberrationStrength
        (useFrame False (1 / 60) (resting\<lparr>currentAberrationStrength := 0.0005\<rparr>)) = 0"
    "currentAberrationStrength
        (useFrame2 (1 / 60) (resting\<lparr>currentAberrationStrength := 0.00105\<rparr>)) = 0"
    by (simp_all add: useFrame_strength useFrame2_strength r lerp_def)
  show ?thesis
    using C4_decay_to_rest [of resting "1 / 60" False] r f g by simp
qed

section \<open>Watchdog\<close>

text \<open>
  C9. In the second variant the debounce callback starts a timer of 1000 ms. Its callback
  sets the force-reset flag exactly when the current strength is strictly between 0 and
  0.05, and changes nothing else. With the flag set, the next frame sets current strength
  and current direction to zero and clears the flag, instead of interpolating.
\<close>

theorem C9_watchdog:
  "timers (scrollTimerExpired2 s) (nextTimer s) = Some (1000, Watchdog)
   \<and> watchdogExpired2 s =
       (if 0 < currentAberrationStrength s \<and> currentAberrationStrength s < 0.05
        then s\<lparr>forceReset := True\<rparr> else s)
   \<and> (timers s h = Some (ms, Watchdog) \<longrightarrow>
        forceReset (fireTimer2 h s) =
          (forceReset s \<or> 0 < currentAberrationStrength s \<and> currentAberrationStrength s < 0.05))
   \<and> (material s \<and> forceReset s \<longrightarrow>
        currentAberrationStrength (useFrame2 delta s) = 0
        \<and> currentDirection (useFrame2 delta s) = (0, 0)
        \<and> \<not> forceReset (useFrame2 delta s))"
proof (intro conjI impI)
  show "timers (scrollTimerExpired2 s) (nextTimer s) = Some (1000, Watchdog)"
    by (simp add: scrollTimerExpired2_def setTimeout_def)
  show "watchdogExpired2 s =
       (if 0 < currentAberrationStrength s \<and> currentAberrationStrength s < 0.05
        then s\<lparr>forceReset := True\<rparr> else s)"
    by (simp add: watchdogExpired2_def)
  show "forceReset (fireTimer2 h s) =
          (forceReset s \<or> 0 < currentAberrationStrength s \<and> currentAberrationStrength s < 0.05)"
    if "timers s h = Some (ms, Watchdog)"
    using that by (auto simp add: fireTimer2_def watchdogExpired2_def Let_def)
next
  assume a: "material s \<and> forceReset s"
  then show "currentAberrationStrength (useFrame2 delta s) = 0"
    by (simp add: useFrame2_def updateUniforms_def)
  from a show "currentDirection (useFrame2 delta s) = (0, 0)"
    by (simp add: useFrame2_def updateUniforms_def)
  from a show "\<not> forceReset (useFrame2 delta s)"
    by (simp add: useFrame2_def updateUniforms_def)
qed


theorem C9_watchdog_witness:
  "timers stuck 1 = Some (1000, Watchdog)
   \<and> \<not> forceReset stuck
   \<and> forceReset (fireTimer2 1 stuck)
   \<and> material (fireTimer2 1 stuck)
   \<and> currentAberrationStrength (fireTimer2 1 stuck) = 0.01
   \<and> currentAberrationStrength (useFrame2 (1 / 60) (fireTimer2 1 stuck)) = 0
   \<and> currentDirection (useFrame2 (1 / 60) (fireTimer2 1 stuck)) = (0, 0)
   \<and> \<not> forceReset (useFrame2 (1 / 60) (fireTimer2 1 stuck))
   \<and> \<not> forceReset (fireTimer2 1 (stuck\<lparr>currentAberrationStrength := 0.05\<rparr>))
   \<and> \<not> forceReset (fireTimer2 1 (stuck\<lparr>currentAberrationStrength := 0\<rparr>))"
proof -
  have t: "timers stuck 1 = Some (1000, Watchdog)"
    by (simp add: stuck_def initial_def scrollTimerExpired2_def setTimeout_def)
  have f: "\<not> forceReset stuck" "currentAberrationStrength stuck = 0.01" "material stuck"
    by (simp_all add: stuck_def initial_def scrollTimerExpired2_def setTimeout_def)
  have g: "material (fireTimer2 1 stuck)"
    "currentAberrationStrength (fireTimer2 1 stuck) = 0.01"
    using t f by (simp_all add: fireTimer2_def watchdogExpired2_def)
  have h: "\<not> forceReset (fireTimer2 1 (stuck\<lparr>currentAberrationStrength := 0.05\<rparr>))"
    "\<not> forceReset (fireTimer2 1 (stuck\<lparr>currentAberrationStrength := 0\<rparr>))"
    using t f by (simp_all add: fireTimer2_def watchdogExpired2_def)
  show ?thesis
    using C9_watchdog [of stuck 1 1000 "1 / 60"]
      C9_watchdog [of "fireTimer2 1 stuck" 1 1000 "1 / 60"] t f g h
    by simp
qed

section \<open>Frame-rate independence\<close>

lemma lerp_powr: "lerp c t (1 - r powr a) = t + (c - t) * r powr a"
  by (simp add: lerp_def algebra_simps)


lemma base_range: "0 < base mobile" "base mobile < 1"
  by (simp_all add: base_def)

lemma useFrame_smooth:
  assumes "material s" "\<not> forceReset s"
  shows "currentAberrationStrength (useFrame mobile delta s) =
     (let c = targetAberrationStrength s
              + (currentAberrationStrength s - targetAberrationStrength s)
                * base mobile powr (delta * 60)
      in if c < 0.0005 then 0 else c)"
  using assms by (simp add: useFrame_strength lerp_powr base_def)



lemma cruising_fields:
  "material cruising" "\<not> forceReset cruising" "isScrolling cruising"
  "targetAberrationStrength cruising = 2" "currentAberrationStrength cruising = 1"
  by (simp_all add: cruising_def initial_def)

text \<open>
  The second variant never reads the elapsed time: its factor is the same for every frame,
  so two frames move further than one, however short they are.
\<close>

lemma useFrame2_ignores_delta: "useFrame2 d s = useFrame2 d' s"
  by (simp add: useFrame2_def)

lemma useFrame2_two_frames:
  "currentAberrationStrength (useFrame2 (2 / 60) cruising) = 1.15
   \<and> currentAberrationStrength (useFrame2 (1 / 60) (useFrame2 (1 / 60) cruising)) = 1.2775"
proof -
  have one: "currentAberrationStrength (useFrame2 d cruising) = 1.15" for d
    by (simp add: useFrame2_strength cruising_fields lerp_def)
  have "isScrolling (useFrame2 d cruising)" "\<not> forceReset (useFrame2 d cruising)" for d
    by (simp_all add: useFrame2_def updateUniforms_def cruising_fields Let_def)
  then have "currentAberrationStrength (useFrame2 (1 / 60) (useFrame2 (1 / 60) cruising)) = 1.2775"
    by (simp add: useFrame2_strength useFrame_keeps cruising_fields one lerp_def)
  with one show ?thesis by simp
qed

















lemma slow_fields:
  "material slow" "\<not> forceReset slow" "\<not> isScrolling slow"
  "targetAberrationStrength slow = 0.002" "currentAberrationStrength slow = 0"
  by (simp_all add: slow_def initial_def)



lemma slow_long_frame:
  "currentAberrationStrength (useFrame False (2 / 60) slow) = 0.000555"
  by (simp add: useFrame_smooth slow_fields base_def power2_eq_square)





section \<open>Targets too small to start the effect\<close>

lemma useFrame_zero:
  assumes "currentAberrationStrength s = 0"
    "targetAberrationStrength s * (1 - base mobile powr (d * 60)) < 0.0005"
  shows "currentAberrationStrength (useFrame mobile d s) = 0"
proof (cases "material s")
  case True
  show ?thesis
  proof (cases "forceReset s")
    case True
    with \<open>material s\<close> assms(1) show ?thesis
      by (simp add: useFrame_strength lerp_def)
  next
    case False
    with \<open>material s\<close> assms show ?thesis
      by (simp add: useFrame_smooth algebra_simps)
  qed
next
  case False
  with assms(1) show ?thesis by (simp add: useFrame_def)
qed

lemma frames_zero:
  assumes "currentAberrationStrength s = 0"
    "\<forall>d\<in>set ds. targetAberrationStrength s * (1 - base mobile powr (d * 60)) < 0.0005"
  shows "currentAberrationStrength (fold (useFrame mobile) ds s) = 0"
  using assms
proof (induction ds arbitrary: s)
  case Nil
  then show ?case by simp
next
  case (Cons d ds)
  have "currentAberrationStrength (useFrame mobile d s) = 0"
    using Cons.prems by (intro useFrame_zero) simp_all
  moreover have "\<forall>x\<in>set ds. targetAberrationStrength (useFrame mobile d s)
      * (1 - base mobile powr (x * 60)) < 0.0005"
    using Cons.prems(2) by (simp add: useFrame_keeps)
  ultimately show ?case using Cons.IH by simp
qed

lemma scaledDamping_short_frame:
  assumes "0 \<le> d" "d \<le> 1 / 60"
  shows "1 - base mobile powr (d * 60) \<le> 1 - base mobile"
proof -
  have "base mobile powr 1 \<le> base mobile powr (d * 60)"
    using assms base_range [of mobile] by (intro powr_mono') auto
  then show ?thesis using base_range [of mobile] by simp
qed

lemma useFrame2_zero:
  assumes "currentAberrationStrength s = 0" "0 \<le> targetAberrationStrength s"
    "targetAberrationStrength s * 0.15 < 0.001"
  shows "currentAberrationStrength (useFrame2 d s) = 0"
proof (cases "material s")
  case True
  have "targetAberrationStrength s * 0.08 \<le> targetAberrationStrength s * 0.15"
    using assms(2) by simp
  then show ?thesis
    using True assms by (simp add: useFrame2_strength lerp_def)
next
  case False
  with assms(1) show ?thesis by (simp add: useFrame2_def)
qed

lemma frames2_zero:
  assumes "currentAberrationStrength s = 0" "0 \<le> targetAberrationStrength s"
    "targetAberrationStrength s * 0.15 < 0.001"
  shows "currentAberrationStrength (fold useFrame2 ds s) = 0"
  using assms
proof (induction ds arbitrary: s)
  case Nil
  then show ?case by simp
next
  case (Cons d ds)
  have "currentAberrationStrength (useFrame2 d s) = 0"
    using Cons.prems by (intro useFrame2_zero)
  then show ?case using Cons.prems Cons.IH [of "useFrame2 d s"]
    by (simp add: useFrame_keeps)
qed

text \<open>
  C10 (amended). A current strength of exactly 0 stays 0 over every list of frames on
  each of which the target times the damping factor applied on that frame,
  \<open>1 - (1 - k) powr (delta * 60)\<close> with k = 0.15 (0.12 on mobile), is below 0.0005. For a
  non-negative target t with \<open>t * k < 0.0005\<close> this holds on every frame of at most 1/60 s.
  In the second variant the factor is fixed and the epsilon is 0.001: a non-negative target
  with \<open>t * 0.15 < 0.001\<close> never moves a current strength of 0.
\<close>

theorem C10_zero_stays_zero:
  assumes "currentAberrationStrength s = 0"
  shows "((\<forall>d\<in>set ds. targetAberrationStrength s
                * (1.0 - (1.0 - (if mobile then 0.12 else 0.15)) powr (d * 60)) < 0.0005)
           \<longrightarrow> currentAberrationStrength (fold (useFrame mobile) ds s) = 0)
       \<and> (0 \<le> d \<and> d \<le> 1 / 60 \<and> 0 \<le> t \<and> t * (if mobile then 0.12 else 0.15) < 0.0005
           \<longrightarrow> (t::real) * (1.0 - (1.0 - (if mobile then 0.12 else 0.15)) powr (d * 60)) < 0.0005)
       \<and> (0 \<le> targetAberrationStrength s \<and> targetAberrationStrength s * 0.15 < 0.001
           \<longrightarrow> currentAberrationStrength (fold useFrame2 ds s) = 0)"
proof -
  have b: "1.0 - (if mobile then 0.12 else 0.15) = base mobile"
    by (simp add: base_def)
  have k: "(if mobile then 0.12 else 0.15) = 1 - base mobile"
    by (simp add: base_def)
  have one: "currentAberrationStrength (fold (useFrame mobile) ds s) = 0"
    if "\<forall>d\<in>set ds. targetAberrationStrength s * (1.0 - base mobile powr (d * 60)) < 0.0005"
    using assms that by (intro frames_zero) simp_all
  have two: "t * (1.0 - base mobile powr (d * 60)) < 0.0005"
    if "0 \<le> d \<and> d \<le> 1 / 60 \<and> 0 \<le> t \<and> t * (1 - base mobile) < 0.0005"
  proof -
    have "t * (1 - base mobile powr (d * 60)) \<le> t * (1 - base mobile)"
      using that scaledDamping_short_frame [of d mobile] by (intro mult_left_mono) auto
    with that show ?thesis by simp
  qed
  have three: "currentAberrationStrength (fold useFrame2 ds s) = 0"
    if "0 \<le> targetAberrationStrength s \<and> targetAberrationStrength s * 0.15 < 0.001"
    using assms that by (intro frames2_zero) simp_all
  show ?thesis
    unfolding b unfolding k using one two three by blast
qed

theorem C10_zero_stays_zero_witness:
  "currentAberrationStrength slow = 0 \<and> targetAberrationStrength slow = 0.002
   \<and> list_all (\<lambda>d. (0.002::real) * (1.0 - (1.0 - 0.15) powr (d * 60)) < 0.0005)
        [1 / 60, 1 / 60]
   \<and> currentAberrationStrength (fold (useFrame False) [1 / 60, 1 / 60] slow) = 0
   \<and> (0.002::real) * (1.0 - (1.0 - 0.15) powr (1 / 120 * 60)) < 0.0005
   \<and> currentAberrationStrength (fold useFrame2 [1 / 60, 1 / 60] slow) = 0"
  using C10_zero_stays_zero [of slow "[1 / 60, 1 / 60]" False "1 / 120" "0.002"]
  by (simp add: slow_fields)

text \<open>
  With the damping factor read as the constant 0.15, the claim fails on a longer frame:
  target 0.002 has \<open>0.002 * 0.15 = 0.0003 < 0.0005\<close>, yet one desktop frame of 2/60 s takes
  the current strength from 0 to 0.000555.
\<close>

theorem C10_long_frame_counterexample:
  "currentAberrationStrength slow = 0
   \<and> 0 < targetAberrationStrength slow * 0.15
   \<and> targetAberrationStrength slow * 0.15 < 0.0005
   \<and> currentAberrationStrength (useFrame False (2 / 60) slow) = 0.000555
   \<and> currentAberrationStrength (useFrame False (2 / 60) slow) \<noteq> 0"
  using slow_long_frame by (simp add: slow_fields)

section \<open>Coordinate mapping\<close>

lemma newImageData_position:
  "position (newImageData win vp img) =
     ((fst (rectCenter (img_rect img)) / innerWidth win) * viewportWidth vp - viewportWidth vp / 2,
      - ((snd (rectCenter (img_rect img)) / innerHeight win) * viewportHeight vp)
        + viewportHeight vp / 2,
      0)"
  "position (newImageData2 win vp img) = position (newImageData win vp img)"
  by (simp_all add: newImageData_def newImageData2_def rectCenter_def Let_def)

text \<open>
  C8. For a window and a viewport of positive width and height, mapping the world position
  \<open>setupImages\<close> computes back to the screen gives the centre of the image's rectangle
  (exactly, over the reals), in both variants; the horizontal world coordinate grows with
  the horizontal screen coordinate of the centre, and the vertical world coordinate falls
  as the vertical screen coordinate grows.
\<close>

theorem C8_coordinate_round_trip:
  assumes "0 < innerWidth win" "0 < innerHeight win"
    "0 < viewportWidth vp" "0 < viewportHeight vp"
  shows "spec_screenCenter win vp (position (newImageData win vp img)) = rectCenter (img_rect img)
       \<and> spec_screenCenter win vp (position (newImageData2 win vp img)) = rectCenter (img_rect img)
       \<and> (fst (rectCenter (img_rect img)) < fst (rectCenter (img_rect img')) \<longrightarrow>
            fst (position (newImageData win vp img)) < fst (position (newImageData win vp img')))
       \<and> (snd (rectCenter (img_rect img)) < snd (rectCenter (img_rect img')) \<longrightarrow>
            fst (snd (position (newImageData win vp img')))
              < fst (snd (position (newImageData win vp img))))"
proof -
  obtain cx cy where c: "rectCenter (img_rect img) = (cx, cy)" by (cases "rectCenter (img_rect img)")
  obtain cx' cy' where c': "rectCenter (img_rect img') = (cx', cy')"
    by (cases "rectCenter (img_rect img')")
  have rt: "spec_screenCenter win vp (position (newImageData win vp img)) = (cx, cy)"
    using assms by (simp add: newImageData_position c spec_screenCenter_def field_simps)
  have hx: "cx / innerWidth win * viewportWidth vp < cx' / innerWidth win * viewportWidth vp"
    if "cx < cx'"
    using that assms by (intro mult_strict_right_mono divide_strict_right_mono)
  have hy: "cy / innerHeight win * viewportHeight vp < cy' / innerHeight win * viewportHeight vp"
    if "cy < cy'"
    using that assms by (intro mult_strict_right_mono divide_strict_right_mono)
  show ?thesis
    using rt hx hy by (simp add: newImageData_position c c')
qed

theorem C8_coordinate_round_trip_witness:
  "0 < innerWidth desktop \<and> 0 < innerHeight desktop
   \<and> 0 < viewportWidth canvasViewport \<and> 0 < viewportHeight canvasViewport
   \<and> position (newImageData desktop canvasViewport jsLogo) = (- 6.35, 1.6, 0)
   \<and> rectCenter (img_rect jsLogo) = (132, 232)
   \<and> spec_screenCenter desktop canvasViewport (- 6.35, 1.6, 0) = (132, 232)"
  using C8_coordinate_round_trip [of desktop canvasViewport jsLogo jsLogo]
  by (simp add: desktop_def canvasViewport_def jsLogo_def newImageData_def rectCenter_def
      spec_screenCenter_def Let_def)

section \<open>Teardown\<close>

lemma overlayCleanup_dom: "dom (overlayCleanup ov) = dom ov"
  by (simp add: overlayCleanup_def)

text \<open>
  C7. On a page with one image marked \<open>data-shader\<close> and no inline opacity, mounting
  \<open>ShaderEffectOverlay\<close> sets the opacity to 0 and attaches the resize listener; its
  cleanup detaches the listener and leaves the opacity at 0, in both variants.
\<close>

theorem C7_overlay_cleanup_keeps_hidden:
  "map opacity (dom skillsPage) = [[]]
   \<and> map opacity (dom (overlayMount desktop canvasViewport skillsPage)) = [''0'']
   \<and> listeners (overlayMount desktop canvasViewport skillsPage) = [''resize'']
   \<and> map opacity (dom (overlayCleanup (overlayMount desktop canvasViewport skillsPage)))
       = [''0'']
   \<and> listeners (overlayCleanup (overlayMount desktop canvasViewport skillsPage)) = []
   \<and> map opacity (dom (overlayCleanup (overlayMount2 desktop canvasViewport skillsPage)))
       = [''0'']
   \<and> listeners (overlayCleanup (overlayMount2 desktop canvasViewport skillsPage)) = []"
  by (simp add: skillsPage_def jsLogo_def overlayMount_def overlayMount2_def
      overlayCleanup_def setupImages_def setupImages2_def hide_def Let_def)

text \<open>
  The cleanup of \<open>ChromaticImages\<close> does undo its hiding and its identifiers.
\<close>

lemma chromatic_cleanup_restores:
  "map opacity (cdom (chromaticMount decayPage)) = [''0'', []]
   \<and> map chromaticId (cdom (chromaticMount decayPage)) = [Some ''chromatic-image-0'', None]
   \<and> cdom (chromaticCleanup (chromaticMount decayPage)) = cdom decayPage
   \<and> observed (chromaticCleanup (chromaticMount decayPage)) = []"
  by (simp add: decayPage_def jsLogo_def chromaticMount_def chromaticCleanup_def
      querySelectorAll_decay_def modify_def hide_def upt_rec Let_def)

text \<open>
  It writes the empty string, whatever the inline opacity was before the effect hid the
  image.
\<close>

lemma chromatic_cleanup_clears_inline_opacity:
  "map opacity (cdom (chromaticCleanup (chromaticMount
      (decayPage\<lparr>cdom := [jsLogo\<lparr>dataChromaticDecay := True, opacity := ''0.5''\<rparr>]\<rparr>))))
   = [[]]"
  by (simp add: decayPage_def jsLogo_def chromaticMount_def chromaticCleanup_def
      querySelectorAll_decay_def modify_def hide_def upt_rec Let_def)

end
